theory Spec2Isabelle
  imports Complex_Main "HOL-Library.Word"
begin

section \<open>Strings\<close>

text \<open>
  The strings that the program compares with literals (the answers of the solve call,
  media types, data URLs) are taken as \<open>string\<close>; the literals are ASCII. Two of the
  string methods called on them are written out: \<^verbatim>\<open>s.startsWith(p)\<close> and
  \<^verbatim>\<open>s.replace(p, r)\<close> with a string pattern (only the first occurrence is replaced; the
  sources always pass the empty replacement, so the dollar patterns of a replacement
  string never occur).
\<close>

definition startsWith :: "string \<Rightarrow> string \<Rightarrow> bool" where
  "startsWith s p = (take (length p) s = p)"

fun replace :: "string \<Rightarrow> string \<Rightarrow> string \<Rightarrow> string" where
  "replace [] p r = (if p = [] then r else [])"
| "replace (c # cs) p r =
     (if startsWith (c # cs) p then r @ drop (length p) (c # cs)
      else c # replace cs p r)"

text \<open>
  The problem that the user types is the one string whose characters the program
  looks at: \<^verbatim>\<open>s.trim()\<close> removes white space and line terminators from both ends. It is
  kept as the sequence of its UTF-16 code units. \<open>isWhiteSpace\<close> holds of the code
  units that ECMAScript strips: WhiteSpace is TAB, VT, FF, U+FEFF and the space
  separators of Unicode (U+0020, U+00A0, U+1680, U+2000 to U+200A, U+202F, U+205F,
  U+3000); LineTerminator is LF, CR, U+2028 and U+2029. \<open>utf16\<close> reads an ASCII
  literal as code units.
\<close>

type_synonym code_unit = "16 word"

definition isWhiteSpace :: "code_unit \<Rightarrow> bool" where
  "isWhiteSpace c =
     (c = 0x0009 \<or> c = 0x000B \<or> c = 0x000C \<or> c = 0xFEFF \<or>
      c = 0x0020 \<or> c = 0x00A0 \<or> c = 0x1680 \<or> (0x2000 \<le> c \<and> c \<le> 0x200A) \<or>
      c = 0x202F \<or> c = 0x205F \<or> c = 0x3000 \<or>
      c = 0x000A \<or> c = 0x000D \<or> c = 0x2028 \<or> c = 0x2029)"

definition trim :: "code_unit list \<Rightarrow> code_unit list" where
  "trim s = rev (dropWhile isWhiteSpace (rev (dropWhile isWhiteSpace s)))"

definition utf16 :: "string \<Rightarrow> code_unit list" where
  "utf16 s = map of_char s"

text \<open>
  \<^verbatim>\<open>s.split(',')[1]\<close>: the text between the first and the second comma; \<open>None\<close> is
  JavaScript's \<^verbatim>\<open>undefined\<close>, the value when \<open>s\<close> has no comma.
\<close>

definition split_comma_1 :: "string \<Rightarrow> string option" where
  "split_comma_1 s =
     (case dropWhile (\<lambda>c. c \<noteq> CHR '','') s of
        [] \<Rightarrow> None
      | _ # rest \<Rightarrow> Some (takeWhile (\<lambda>c. c \<noteq> CHR '','') rest))"

section \<open>Region extraction: \<^verbatim>\<open>getCroppedImg\<close> of ImageCropModal.tsx\<close>

text \<open>
  A JavaScript number is an IEEE 754 binary64 value. The finite ones are real numbers,
  and \<^verbatim>\<open>*\<close> and \<^verbatim>\<open>/\<close> return the exact product and quotient rounded to the nearest
  binary64 value, ties to the even significand. \<open>binary64\<close> is that rounding: a number
  other than zero is rounded to a multiple of \<open>2 ^ (e - 52)\<close>, where \<open>e\<close> is its binary
  exponent, and not less than \<open>- 1022\<close> (below \<open>2 ^ - 1022\<close> the values are the
  multiples of \<open>2 ^ - 1074\<close>). Infinities and \<^verbatim>\<open>NaN\<close> are not numbers of the model: a
  result of magnitude \<open>2 ^ 1024\<close> or more, which the program rounds to an infinity, and
  a division by zero, which is \<open>0\<close> in HOL, are outside of it, so what is proved about
  the scale factors assumes a displayed image of positive size. The attributes of an
  image element are unsigned integers in the DOM, the fields of a \<^verbatim>\<open>PixelCrop\<close> are
  numbers.
\<close>

definition round_half_even :: "real \<Rightarrow> int" where
  "round_half_even y =
     (let f = \<lfloor>y\<rfloor>
      in if y - of_int f < 1 / 2 then f
         else if 1 / 2 < y - of_int f then f + 1
         else if even f then f else f + 1)"

definition binary64 :: "real \<Rightarrow> real" where
  "binary64 y =
     (if y = 0 then 0
      else
        let e = max \<lfloor>log 2 \<bar>y\<bar>\<rfloor> (- 1022);
            u = 2 powr of_int (e - 52)
        in of_int (round_half_even (y / u)) * u)"

definition js_times :: "real \<Rightarrow> real \<Rightarrow> real" where
  "js_times a b = binary64 (a * b)"

definition js_divide :: "real \<Rightarrow> real \<Rightarrow> real" where
  "js_divide a b = binary64 (a / b)"

text \<open>
  \<open>img_broken\<close>: the image did not decode (its current request is in the state
  \<^emph>\<open>broken\<close> of the HTML standard), which makes \<^verbatim>\<open>drawImage\<close> throw an
  \<^verbatim>\<open>InvalidStateError\<close>.
\<close>

record HTMLImageElement =
  naturalWidth :: nat
  naturalHeight :: nat
  img_width :: nat
  img_height :: nat
  img_broken :: bool

record PixelCrop =
  crop_x :: real
  crop_y :: real
  crop_width :: real
  crop_height :: real

datatype ImageSmoothingQuality = low | medium | high

text \<open>One call of \<^verbatim>\<open>ctx.drawImage(image, sx, sy, sw, sh, dx, dy, dw, dh)\<close>.\<close>

record drawImage =
  sx :: real
  sy :: real
  sw :: real
  sh :: real
  dx :: real
  dy :: real
  dw :: real
  dh :: real

text \<open>
  The canvas with the state of its 2D context: the values assigned to \<^verbatim>\<open>width\<close> and
  \<^verbatim>\<open>height\<close>, the six numbers of \<^verbatim>\<open>setTransform\<close>, the smoothing quality and the
  \<^verbatim>\<open>drawImage\<close> calls made so far. \<open>createElement_canvas\<close> is a new canvas element:
  300 by 150, identity transform, quality \<^verbatim>\<open>low\<close>, nothing drawn.
\<close>

record canvas =
  canvas_width :: real
  canvas_height :: real
  transform :: "real \<times> real \<times> real \<times> real \<times> real \<times> real"
  imageSmoothingQuality :: ImageSmoothingQuality
  drawn :: "drawImage list"

definition createElement_canvas :: canvas where
  "createElement_canvas =
     \<lparr>canvas_width = 300, canvas_height = 150, transform = (1, 0, 0, 1, 0, 0),
      imageSmoothingQuality = low, drawn = []\<rparr>"

datatype Blob = Blob string string

text \<open>
  What the browser answers while a crop is confirmed: whether \<^verbatim>\<open>getContext('2d')\<close>
  returns a context, \<^verbatim>\<open>window.devicePixelRatio\<close>, the encoder \<^verbatim>\<open>canvas.toDataURL\<close>,
  the \<^verbatim>\<open>fetch(...).blob()\<close> of a data URL (\<open>None\<close> when the promise rejects) and the
  image element \<^verbatim>\<open>imgRef.current\<close> (\<open>None\<close> for \<^verbatim>\<open>null\<close>).
\<close>

record browser =
  getContext_2d :: bool
  devicePixelRatio :: real
  toDataURL :: "canvas \<Rightarrow> string \<Rightarrow> string"
  fetch_blob :: "string \<Rightarrow> Blob option"
  imgRef :: "HTMLImageElement option"

text \<open>
  What \<^verbatim>\<open>getCroppedImg\<close> can fail with: the \<^verbatim>\<open>Error\<close> it rejects with when there is no
  context (\<^verbatim>\<open>Could not get canvas context.\<close>), and the exception of \<^verbatim>\<open>drawImage\<close>.
\<close>

datatype crop_error = CanvasContextError | InvalidStateError

definition scaleX :: "HTMLImageElement \<Rightarrow> real" where
  "scaleX img = js_divide (real (naturalWidth img)) (real (img_width img))"

definition scaleY :: "HTMLImageElement \<Rightarrow> real" where
  "scaleY img = js_divide (real (naturalHeight img)) (real (img_height img))"

text \<open>\<^verbatim>\<open>window.devicePixelRatio || 1\<close>: zero is falsy.\<close>

definition pixelRatio :: "browser \<Rightarrow> real" where
  "pixelRatio b = (if devicePixelRatio b = 0 then 1 else devicePixelRatio b)"

text \<open>
  \<open>getCroppedImg_canvas\<close> is the body of \<^verbatim>\<open>getCroppedImg\<close> up to the promise it returns:
  the rejection when there is no context, the exception of \<^verbatim>\<open>drawImage\<close> when the image
  is broken, else the canvas as \<^verbatim>\<open>toDataURL\<close> finds it. The assignments are made in the
  order of the source. \<open>drawn\<close> lists the calls of \<^verbatim>\<open>drawImage\<close> that returned, with
  their arguments; what a call paints is the browser's.
\<close>

definition getCroppedImg_canvas :: "browser \<Rightarrow> HTMLImageElement \<Rightarrow> PixelCrop \<Rightarrow> crop_error + canvas" where
  "getCroppedImg_canvas b img crop =
     (let c0 = createElement_canvas;
          c1 = c0\<lparr>canvas_width := crop_width crop\<rparr>;
          c2 = c1\<lparr>canvas_height := crop_height crop\<rparr>
      in if \<not> getContext_2d b then Inl CanvasContextError
         else
           let c3 = c2\<lparr>canvas_width := js_times (crop_width crop) (pixelRatio b)\<rparr>;
               c4 = c3\<lparr>canvas_height := js_times (crop_height crop) (pixelRatio b)\<rparr>;
               c5 = c4\<lparr>transform := (pixelRatio b, 0, 0, pixelRatio b, 0, 0)\<rparr>;
               c6 = c5\<lparr>imageSmoothingQuality := high\<rparr>;
               c7 = c6\<lparr>drawn := drawn c6 @
                      [\<lparr>sx = js_times (crop_x crop) (scaleX img),
                        sy = js_times (crop_y crop) (scaleY img),
                        sw = js_times (crop_width crop) (scaleX img),
                        sh = js_times (crop_height crop) (scaleY img),
                        dx = 0, dy = 0,
                        dw = crop_width crop,
                        dh = crop_height crop\<rparr>]\<rparr>
           in if img_broken img then Inl InvalidStateError else Inr c7)"

definition getCroppedImg :: "browser \<Rightarrow> HTMLImageElement \<Rightarrow> PixelCrop \<Rightarrow> string \<Rightarrow> crop_error + string" where
  "getCroppedImg b img crop fileType =
     (case getCroppedImg_canvas b img crop of
        Inl e \<Rightarrow> Inl e
      | Inr c \<Rightarrow> Inr (toDataURL b c fileType))"

section \<open>The solve service: geminiService.ts\<close>

text \<open>
  The collaborator \<^verbatim>\<open>ai.models.generateContent\<close> is opaque. A call is recorded with
  what distinguishes it: for an image the text part and the \<^verbatim>\<open>inlineData\<close> of the
  image part, for a text problem the problem (model name and \<^verbatim>\<open>config\<close> are constants of
  the module). The promise it returns is fulfilled with a response whose \<^verbatim>\<open>text\<close> is
  given, or rejected: with a value that is an \<^verbatim>\<open>instanceof Error\<close>, whose \<^verbatim>\<open>message\<close> is
  given, or with any other value.
\<close>

record inlineData =
  mimeType :: string
  data :: "string option"

datatype request = ImageRequest string inlineData | TextRequest "code_unit list"

datatype generateContent_result = Fulfilled string | RejectedError string | RejectedOther

text \<open>
  Each of the two service functions is an \<^verbatim>\<open>async\<close> function around one \<^verbatim>\<open>await\<close>: the
  part before it builds the request, the part after it (\<open>_settled\<close>) turns the outcome
  of the call into the string the function's promise is fulfilled with. The promise of
  a service function is never rejected. \<^verbatim>\<open>response.text\<close> is a string, as the declared
  result \<^verbatim>\<open>Promise<string>\<close> has it.
\<close>

definition solveMathProblemFromImage :: "string option \<Rightarrow> string \<Rightarrow> request" where
  "solveMathProblemFromImage base64Image mimeType' =
     ImageRequest ''Solve the math problem shown in this image.''
       \<lparr>mimeType = mimeType', data = base64Image\<rparr>"

definition solveMathProblemFromImage_settled :: "generateContent_result \<Rightarrow> string" where
  "solveMathProblemFromImage_settled r =
     (case r of
        Fulfilled response_text \<Rightarrow> response_text
      | RejectedError message \<Rightarrow> ''Error: '' @ message
      | RejectedOther \<Rightarrow> ''An unknown error occurred while analyzing the image.'')"

definition solveMathProblemFromText :: "code_unit list \<Rightarrow> request" where
  "solveMathProblemFromText problem = TextRequest problem"

definition solveMathProblemFromText_settled :: "generateContent_result \<Rightarrow> string" where
  "solveMathProblemFromText_settled r =
     (case r of
        Fulfilled response_text \<Rightarrow> response_text
      | RejectedError message \<Rightarrow> ''Error: '' @ message
      | RejectedOther \<Rightarrow> ''An unknown error occurred while solving the problem.'')"

section \<open>The session: App.tsx, with ImageUploader.tsx and the modal of ImageCropModal.tsx\<close>

text \<open>
  Modelled from the spec: the enum \<^verbatim>\<open>AppState\<close> is declared in types.ts, which is not
  among the sources. Its members are the five that App.tsx names; they stand for the
  spec's states Idle, Selecting, Processing, Success and Failed, in this order.
\<close>

datatype AppState = IDLE | CROPPING | ANALYZING | SUCCESS | ERROR

datatype InputMode = mode_upload | mode_text

record File =
  file_type :: string
  file_name :: string

text \<open>
  An object URL is a string that the browser makes up; here the URLs are numbered in
  the order of their creation. The store of the browser keeps the next number, the URLs
  that are live with the object each stands for, and every call of
  \<^verbatim>\<open>URL.revokeObjectURL\<close> in order.
\<close>

datatype url_object = OfFile File | OfBlob Blob

text \<open>
  The state: the eight \<^verbatim>\<open>useState\<close> cells of \<^verbatim>\<open>App\<close>, the two cells of the mounted
  \<^verbatim>\<open>ImageCropModal\<close> that its handlers read, the URL store, and the calls of
  \<^verbatim>\<open>generateContent\<close> that have not settled yet, oldest first.
\<close>

record world =
  appState :: AppState
  inputMode :: InputMode
  imageToCrop :: "(File \<times> nat) option"
  uploadedImage :: "nat option"
  textProblem :: "code_unit list"
  submittedText :: "code_unit list option"
  solution :: "string option"
  error :: "string option"
  completedCrop :: "PixelCrop option"
  isProcessing :: bool
  nextURL :: nat
  liveURLs :: "(nat \<times> url_object) list"
  revoked :: "nat list"
  pending :: "request list"

definition initial :: world where
  "initial =
     \<lparr>appState = IDLE, inputMode = mode_upload, imageToCrop = None, uploadedImage = None,
      textProblem = [], submittedText = None, solution = None, error = None,
      completedCrop = None, isProcessing = False,
      nextURL = 0, liveURLs = [], revoked = [], pending = []\<rparr>"

definition createObjectURL :: "world \<Rightarrow> url_object \<Rightarrow> nat \<times> world" where
  "createObjectURL w obj =
     (nextURL w, w\<lparr>nextURL := Suc (nextURL w), liveURLs := liveURLs w @ [(nextURL w, obj)]\<rparr>)"

definition revokeObjectURL :: "world \<Rightarrow> nat \<Rightarrow> world" where
  "revokeObjectURL w u =
     w\<lparr>liveURLs := filter (\<lambda>l. fst l \<noteq> u) (liveURLs w), revoked := revoked w @ [u]\<rparr>"

definition handleImageSelect :: "world \<Rightarrow> File \<Rightarrow> world" where
  "handleImageSelect w file =
     (let w1 = (case imageToCrop w of
                  Some previous \<Rightarrow> revokeObjectURL w (snd previous)
                | None \<Rightarrow> w);
          created = createObjectURL w1 (OfFile file)
      in (snd created)\<lparr>imageToCrop := Some (file, fst created), appState := CROPPING\<rparr>)"

text \<open>\<^verbatim>\<open>handleFile\<close> of ImageUploader.tsx; the \<^verbatim>\<open>alert\<close> changes nothing of the state.\<close>

definition handleFile :: "world \<Rightarrow> File option \<Rightarrow> world" where
  "handleFile w file =
     (case file of
        Some f \<Rightarrow> if startsWith (file_type f) ''image/'' then handleImageSelect w f else w
      | None \<Rightarrow> w)"

text \<open>
  The lines of \<^verbatim>\<open>handleCropConfirm\<close> and \<^verbatim>\<open>handleTextSubmit\<close> after the \<^verbatim>\<open>await\<close> of the
  service call, \<^verbatim>\<open>catch\<close> included: \<open>result\<close> is what the service's promise was fulfilled
  with. The \<^verbatim>\<open>Error\<close> thrown in the \<^verbatim>\<open>try\<close> block is the only one the \<^verbatim>\<open>catch\<close> can see.
\<close>

definition handleCropConfirm_settled :: "world \<Rightarrow> string \<Rightarrow> world" where
  "handleCropConfirm_settled w result =
     (if startsWith result ''Error:'' then
        let message = replace result ''Error: '' []
        in w\<lparr>error := Some (if message = [] then ''An unexpected error occurred.'' else message),
             appState := ERROR\<rparr>
      else w\<lparr>solution := Some result, appState := SUCCESS\<rparr>)"

definition handleTextSubmit_settled :: "world \<Rightarrow> string \<Rightarrow> world" where
  "handleTextSubmit_settled w result =
     (if startsWith result ''Error:'' then
        let message = replace result ''Error: '' []
        in w\<lparr>error := Some (if message = [] then ''An unexpected error occurred.'' else message),
             appState := ERROR\<rparr>
      else w\<lparr>solution := Some result, appState := SUCCESS\<rparr>)"

text \<open>
  \<^verbatim>\<open>handleCropConfirm\<close> up to the \<^verbatim>\<open>await\<close> of the service call. An \<^verbatim>\<open>undefined\<close> first
  argument reads \<^verbatim>\<open>undefined\<close> in the template literal. When the \<^verbatim>\<open>fetch\<close> of the data
  URL rejects, the function's promise is rejected before any state is set.
\<close>

definition handleCropConfirm :: "browser \<Rightarrow> world \<Rightarrow> string option \<Rightarrow> string \<Rightarrow> world" where
  "handleCropConfirm b w base64 mimeType' =
     (case fetch_blob b (''data:'' @ mimeType' @ '';base64,'' @
                          (case base64 of Some s \<Rightarrow> s | None \<Rightarrow> ''undefined'')) of
        None \<Rightarrow> w
      | Some blob \<Rightarrow>
          let created = createObjectURL w (OfBlob blob);
              w1 = (snd created)\<lparr>uploadedImage := Some (fst created)\<rparr>;
              w2 = w1\<lparr>submittedText := None\<rparr>;
              w3 = w2\<lparr>appState := ANALYZING\<rparr>;
              w4 = w3\<lparr>error := None\<rparr>;
              w5 = w4\<lparr>solution := None\<rparr>;
              w6 = w5\<lparr>imageToCrop := None\<rparr>
          in w6\<lparr>pending := pending w6 @ [solveMathProblemFromImage base64 mimeType']\<rparr>)"

definition handleTextSubmit :: "world \<Rightarrow> world" where
  "handleTextSubmit w =
     (if trim (textProblem w) = [] then w
      else
        let w1 = w\<lparr>submittedText := Some (textProblem w)\<rparr>;
            w2 = w1\<lparr>uploadedImage := None\<rparr>;
            w3 = w2\<lparr>appState := ANALYZING\<rparr>;
            w4 = w3\<lparr>error := None\<rparr>;
            w5 = w4\<lparr>solution := None\<rparr>
        in w5\<lparr>pending := pending w5 @ [solveMathProblemFromText (textProblem w)]\<rparr>)"

text \<open>
  \<^verbatim>\<open>handleReset\<close> reads \<^verbatim>\<open>uploadedImage\<close> and \<^verbatim>\<open>imageToCrop\<close> of the render it was
  created in, that is of \<open>w\<close>, after the setters were called.
\<close>

definition handleReset :: "world \<Rightarrow> world" where
  "handleReset w =
     (let w1 = w\<lparr>appState := IDLE, uploadedImage := None, imageToCrop := None,
                 solution := None, error := None, textProblem := [], submittedText := None\<rparr>;
          w2 = (case uploadedImage w of Some u \<Rightarrow> revokeObjectURL w1 u | None \<Rightarrow> w1)
      in case imageToCrop w of Some i \<Rightarrow> revokeObjectURL w2 (snd i) | None \<Rightarrow> w2)"

text \<open>
  \<^verbatim>\<open>handleConfirmCrop\<close> of the modal. \<^verbatim>\<open>getCroppedImg\<close> throws or returns a promise that
  is already settled, and \<^verbatim>\<open>onConfirm\<close> is \<^verbatim>\<open>handleCropConfirm\<close>, whose promise the modal
  does not await: the \<^verbatim>\<open>catch\<close> sees the failures of \<^verbatim>\<open>getCroppedImg\<close> only. The click and the
  \<^verbatim>\<open>fetch\<close> of the data URL that follows it are one step: while the \<^verbatim>\<open>fetch\<close> is awaited
  \<^verbatim>\<open>isProcessing\<close> disables both buttons of the modal, and nothing else is shown that
  has a handler.
\<close>

definition handleConfirmCrop :: "browser \<Rightarrow> world \<Rightarrow> world" where
  "handleConfirmCrop b w =
     (case completedCrop w of
        None \<Rightarrow> w
      | Some crop \<Rightarrow>
          (case imgRef b of
             None \<Rightarrow> w
           | Some img \<Rightarrow>
               let w1 = w\<lparr>isProcessing := True\<rparr>
               in (case getCroppedImg b img crop ''image/jpeg'' of
                     Inr croppedImageBase64 \<Rightarrow>
                       handleCropConfirm b w1 (split_comma_1 croppedImageBase64) ''image/jpeg''
                   | Inl e \<Rightarrow> w1\<lparr>isProcessing := False\<rparr>)))"

text \<open>
  The oldest pending call settles: the service function that made it resumes, then the
  handler that awaited the service.
\<close>

definition settle :: "world \<Rightarrow> generateContent_result \<Rightarrow> world" where
  "settle w r =
     (case pending w of
        [] \<Rightarrow> w
      | ImageRequest t p # rest \<Rightarrow>
          handleCropConfirm_settled (w\<lparr>pending := rest\<rparr>) (solveMathProblemFromImage_settled r)
      | TextRequest t # rest \<Rightarrow>
          handleTextSubmit_settled (w\<lparr>pending := rest\<rparr>) (solveMathProblemFromText_settled r))"

subsection \<open>What is rendered, and the events it admits\<close>

text \<open>
  \<^verbatim>\<open>App\<close> renders \<^verbatim>\<open>renderIdleContent()\<close> in \<^verbatim>\<open>IDLE\<close> and \<^verbatim>\<open>renderResultContent()\<close>,
  which has no control, otherwise; the modal while \<^verbatim>\<open>CROPPING\<close> with an image to crop;
  the button \<^verbatim>\<open>Solve Another Problem\<close> in \<^verbatim>\<open>SUCCESS\<close> and \<^verbatim>\<open>ERROR\<close>. The three
  \<open>_disabled\<close> are the \<^verbatim>\<open>disabled\<close> attributes as App.tsx computes them.
\<close>

definition uploader_disabled :: "world \<Rightarrow> bool" where
  "uploader_disabled w = (appState w \<noteq> IDLE)"

definition textarea_disabled :: "world \<Rightarrow> bool" where
  "textarea_disabled w = (appState w = ANALYZING)"

definition submit_disabled :: "world \<Rightarrow> bool" where
  "submit_disabled w = (appState w = ANALYZING \<or> trim (textProblem w) = [])"

definition modal_mounted :: "world \<Rightarrow> bool" where
  "modal_mounted w = (appState w = CROPPING \<and> imageToCrop w \<noteq> None)"

datatype event =
    FileChange File
  | FileDrop File
  | SetInputMode InputMode
  | TextChange "code_unit list"
  | SubmitForm
  | CropComplete PixelCrop
  | ClickCropAndSolve browser
  | ClickCancel
  | ClickSolveAnother
  | Settled generateContent_result


fun admitted :: "world \<Rightarrow> event \<Rightarrow> bool" where
  "admitted w (FileChange f) =
     (appState w = IDLE \<and> inputMode w = mode_upload \<and> \<not> uploader_disabled w)"
| "admitted w (FileDrop f) =
     (appState w = IDLE \<and> inputMode w = mode_upload \<and> \<not> uploader_disabled w)"
| "admitted w (SetInputMode m) = (appState w = IDLE)"
| "admitted w (TextChange s) =
     (appState w = IDLE \<and> inputMode w = mode_text \<and> \<not> textarea_disabled w)"
| "admitted w SubmitForm =
     (appState w = IDLE \<and> inputMode w = mode_text \<and> \<not> submit_disabled w)"
| "admitted w (CropComplete c) = modal_mounted w"
| "admitted w (ClickCropAndSolve b) =
     (modal_mounted w \<and> \<not> (completedCrop w = None \<or> isProcessing w))"
| "admitted w ClickCancel = (modal_mounted w \<and> \<not> isProcessing w)"
| "admitted w ClickSolveAnother = (appState w = SUCCESS \<or> appState w = ERROR)"
| "admitted w (Settled r) = (pending w \<noteq> [])"

fun handler :: "world \<Rightarrow> event \<Rightarrow> world" where
  "handler w (FileChange f) = handleFile w (Some f)"
| "handler w (FileDrop f) = handleFile w (Some f)"
| "handler w (SetInputMode m) = w\<lparr>inputMode := m\<rparr>"
| "handler w (TextChange s) = w\<lparr>textProblem := s\<rparr>"
| "handler w SubmitForm = handleTextSubmit w"
| "handler w (CropComplete c) = w\<lparr>completedCrop := Some c\<rparr>"
| "handler w (ClickCropAndSolve b) = handleConfirmCrop b w"
| "handler w ClickCancel = handleReset w"
| "handler w ClickSolveAnother = handleReset w"
| "handler w (Settled r) = settle w r"

text \<open>A modal that is no longer rendered is unmounted; the next one starts afresh.\<close>

definition unmount :: "world \<Rightarrow> world" where
  "unmount w = (if modal_mounted w then w else w\<lparr>completedCrop := None, isProcessing := False\<rparr>)"

definition dispatch :: "world \<Rightarrow> event \<Rightarrow> world" where
  "dispatch w e = (if admitted w e then unmount (handler w e) else w)"

definition run :: "world \<Rightarrow> event list \<Rightarrow> world" where
  "run w es = foldl dispatch w es"

text \<open>
  The invariant of the calls in flight: exactly one while \<^verbatim>\<open>ANALYZING\<close>, none in any
  other state.
\<close>

definition in_flight_ok :: "world \<Rightarrow> bool" where
  "in_flight_ok w = (if appState w = ANALYZING then length (pending w) = 1 else pending w = [])"

section \<open>Concrete inputs\<close>

text \<open>
  A browser that has a 2D context, a device pixel ratio of 2, an encoder that returns
  \<^verbatim>\<open>data:,\<close> for a canvas without pixels (as the HTML standard says) and a data URL of
  the requested type otherwise, and a \<^verbatim>\<open>fetch\<close> that reads every data URL; the same
  browser without a 2D context, and with an image that did not decode; an image of
  2000 by 1000 pixels shown at 500 by 250, and one of 27 by 27 pixels shown at 5 by 5
  with a selection that reaches its right and lower edges.
\<close>

definition example_png :: File where
  "example_png = \<lparr>file_type = ''image/png'', file_name = ''a.png''\<rparr>"

definition example_gif :: File where
  "example_gif = \<lparr>file_type = ''image/gif'', file_name = ''b.gif''\<rparr>"

definition example_img :: HTMLImageElement where
  "example_img =
     \<lparr>naturalWidth = 2000, naturalHeight = 1000, img_width = 500, img_height = 250,
      img_broken = False\<rparr>"

definition broken_img :: HTMLImageElement where
  "broken_img =
     \<lparr>naturalWidth = 0, naturalHeight = 0, img_width = 120, img_height = 20,
      img_broken = True\<rparr>"

definition small_img :: HTMLImageElement where
  "small_img =
     \<lparr>naturalWidth = 27, naturalHeight = 27, img_width = 5, img_height = 5,
      img_broken = False\<rparr>"

definition edge_crop :: PixelCrop where
  "edge_crop = \<lparr>crop_x = 2, crop_y = 0, crop_width = 3, crop_height = 5\<rparr>"

definition example_crop :: PixelCrop where
  "example_crop = \<lparr>crop_x = 10, crop_y = 20, crop_width = 100, crop_height = 50\<rparr>"

definition corner_crop :: PixelCrop where
  "corner_crop = \<lparr>crop_x = 400, crop_y = 200, crop_width = 100, crop_height = 50\<rparr>"

definition zero_width_crop :: PixelCrop where
  "zero_width_crop = \<lparr>crop_x = 10, crop_y = 20, crop_width = 0, crop_height = 50\<rparr>"

definition example_toDataURL :: "canvas \<Rightarrow> string \<Rightarrow> string" where
  "example_toDataURL c fileType =
     (if canvas_width c = 0 \<or> canvas_height c = 0 then ''data:,''
      else ''data:'' @ fileType @ '';base64,/9j/4AAQ'')"

definition example_fetch_blob :: "string \<Rightarrow> Blob option" where
  "example_fetch_blob url = Some (Blob ''image/jpeg'' (drop 23 url))"

definition example_browser :: browser where
  "example_browser =
     \<lparr>getContext_2d = True, devicePixelRatio = 2, toDataURL = example_toDataURL,
      fetch_blob = example_fetch_blob, imgRef = Some example_img\<rparr>"

definition no_context_browser :: browser where
  "no_context_browser = example_browser\<lparr>getContext_2d := False\<rparr>"

definition broken_image_browser :: browser where
  "broken_image_browser = example_browser\<lparr>imgRef := Some broken_img\<rparr>"

definition small_image_browser :: browser where
  "small_image_browser = example_browser\<lparr>imgRef := Some small_img\<rparr>"

text \<open>
  A text of every code unit that \<^verbatim>\<open>trim\<close> strips, and the text of one zero width space
  (U+200B), which \<^verbatim>\<open>trim\<close> keeps.
\<close>

definition blank_text :: "code_unit list" where
  "blank_text =
     [0x0009, 0x000A, 0x000B, 0x000C, 0x000D, 0x0020, 0x00A0, 0x1680,
      0x2000, 0x2001, 0x2002, 0x2003, 0x2004, 0x2005, 0x2006, 0x2007, 0x2008, 0x2009, 0x200A,
      0x2028, 0x2029, 0x202F, 0x205F, 0x3000, 0xFEFF]"

definition zero_width_space_text :: "code_unit list" where
  "zero_width_space_text = [0x200B]"

text \<open>
  Sessions: an image was selected and a region completed (\<open>selecting\<close>, and
  \<open>selecting_zero_width\<close> with a region of width zero); the crop was confirmed and the
  call is in flight (\<open>analyzing_image\<close>); a typed problem is ready to be submitted
  (\<open>typed\<close>; \<open>typed_blank\<close> and \<open>typed_zero_width_space\<close> with the two texts above) and
  was submitted (\<open>analyzing_text\<close>). \<open>crop_twice\<close> is two rounds of
  select, crop, answer and reset; in \<open>cancel_then_crop\<close> the first selection is
  cancelled instead.
\<close>

definition selecting :: world where
  "selecting = run initial [FileChange example_png, CropComplete example_crop]"

definition selecting_zero_width :: world where
  "selecting_zero_width = run initial [FileChange example_png, CropComplete zero_width_crop]"

definition analyzing_image :: world where
  "analyzing_image = dispatch selecting (ClickCropAndSolve example_browser)"

definition typed :: world where
  "typed = run initial [SetInputMode mode_text, TextChange (utf16 ''2x+5=15'')]"

definition typed_blank :: world where
  "typed_blank = run initial [SetInputMode mode_text, TextChange blank_text]"

definition typed_zero_width_space :: world where
  "typed_zero_width_space = run initial [SetInputMode mode_text, TextChange zero_width_space_text]"

definition analyzing_text :: world where
  "analyzing_text = dispatch typed SubmitForm"

definition final_answer :: string where
  "final_answer = ''## Final Answer'' @ [CHR 0x0A] @ ''$$x=5$$''"

definition crop_twice :: "event list" where
  "crop_twice =
     [FileChange example_png, CropComplete example_crop, ClickCropAndSolve example_browser,
      Settled (Fulfilled ''x = 3''), ClickSolveAnother,
      FileChange example_gif, CropComplete example_crop, ClickCropAndSolve example_browser,
      Settled (Fulfilled ''x = 5''), ClickSolveAnother]"

definition cancel_then_crop :: "event list" where
  "cancel_then_crop =
     [FileChange example_png, CropComplete example_crop, ClickCancel,
      FileChange example_gif, CropComplete example_crop, ClickCropAndSolve example_browser,
      Settled (Fulfilled ''x = 5''), ClickSolveAnother]"

section \<open>Unfolding the model\<close>

lemmas string_defs = startsWith_def isWhiteSpace_def trim_def utf16_def split_comma_1_def

lemmas crop_defs = getCroppedImg_def getCroppedImg_canvas_def createElement_canvas_def
  pixelRatio_def scaleX_def scaleY_def js_times_def js_divide_def

lemmas service_defs = solveMathProblemFromImage_def solveMathProblemFromImage_settled_def
  solveMathProblemFromText_def solveMathProblemFromText_settled_def

lemmas handler_defs = createObjectURL_def revokeObjectURL_def handleImageSelect_def handleFile_def
  handleCropConfirm_settled_def handleTextSubmit_settled_def handleCropConfirm_def
  handleTextSubmit_def handleReset_def handleConfirmCrop_def settle_def

lemmas render_defs = uploader_disabled_def textarea_disabled_def submit_disabled_def
  modal_mounted_def unmount_def dispatch_def run_def

lemmas example_defs = initial_def example_png_def example_gif_def example_img_def example_crop_def
  corner_crop_def zero_width_crop_def example_toDataURL_def example_fetch_blob_def
  example_browser_def no_context_browser_def broken_img_def small_img_def edge_crop_def
  broken_image_browser_def small_image_browser_def blank_text_def zero_width_space_text_def
  typed_blank_def typed_zero_width_space_def selecting_def selecting_zero_width_def
  analyzing_image_def typed_def analyzing_text_def final_answer_def crop_twice_def
  cancel_then_crop_def

lemmas all_defs = string_defs crop_defs service_defs handler_defs render_defs example_defs

section \<open>Rounding to binary64\<close>

lemma binary64_unfold:
  assumes "y \<noteq> 0" and "max \<lfloor>log 2 \<bar>y\<bar>\<rfloor> (- 1022) = e"
  shows "binary64 y =
           of_int (round_half_even (y / 2 powr of_int (e - 52))) * 2 powr of_int (e - 52)"
  using assms by (simp add: binary64_def Let_def)

lemma round_half_even_le: "of_int (round_half_even y) \<le> y + 1 / 2"
  unfolding round_half_even_def Let_def by (auto simp: not_less) linarith+

lemma round_half_even_ge: "y - 1 / 2 \<le> of_int (round_half_even y)"
  unfolding round_half_even_def Let_def by (auto simp: not_less) linarith+

lemma round_half_even_nonneg: "0 \<le> y \<Longrightarrow> 0 \<le> round_half_even y"
  unfolding round_half_even_def Let_def by auto

lemma round_half_even_of_int [simp]: "round_half_even (of_int k) = k"
  unfolding round_half_even_def Let_def by simp

lemma binary64_nonneg: "0 \<le> y \<Longrightarrow> 0 \<le> binary64 y"
  unfolding binary64_def Let_def by (auto intro!: mult_nonneg_nonneg round_half_even_nonneg)

lemma binary64_at:
  assumes "2 powr of_int e \<le> \<bar>y\<bar>" and "\<bar>y\<bar> < 2 powr of_int (e + 1)" and "- 1022 \<le> e"
  shows "binary64 y = of_int (round_half_even (y / 2 powr of_int (e - 52))) * 2 powr of_int (e - 52)"
proof -
  have pos: "0 < \<bar>y\<bar>"
    using assms(1) powr_gt_zero [of 2 "of_int e"] by linarith
  then have "\<lfloor>log 2 \<bar>y\<bar>\<rfloor> = e"
    using assms(1,2) by (simp add: floor_log_eq_powr_iff)
  with pos assms(3) show ?thesis
    by (simp add: binary64_def Let_def max_def)
qed

lemma binary64_le:
  assumes "0 \<le> y"
  shows "binary64 y \<le> y * (1 + 1 / 2 ^ 53) + 1 / 2 ^ 1075"
proof (cases "y = 0")
  case True
  then show ?thesis by (simp add: binary64_def)
next
  case False
  with assms have y: "0 < y" by simp
  define e where "e = max \<lfloor>log 2 \<bar>y\<bar>\<rfloor> (- 1022)"
  define u where "u = (2::real) powr of_int (e - 52)"
  have u: "0 < u" by (simp add: u_def)
  have b: "binary64 y = of_int (round_half_even (y / u)) * u"
    using False by (simp add: binary64_def Let_def e_def u_def)
  have "of_int (round_half_even (y / u)) * u \<le> (y / u + 1 / 2) * u"
    using round_half_even_le [of "y / u"] u by (intro mult_right_mono) simp_all
  also have "\<dots> = y + u / 2"
    using u by (simp add: field_simps)
  finally have 1: "binary64 y \<le> y + u / 2"
    using b by simp
  have 2: "u / 2 \<le> y / 2 ^ 53 + 1 / 2 ^ 1075"
  proof (cases "- 1022 \<le> \<lfloor>log 2 \<bar>y\<bar>\<rfloor>")
    case True
    then have e: "e = \<lfloor>log 2 y\<rfloor>"
      using y by (simp add: e_def)
    have "2 powr of_int e \<le> y"
      using y floor_log_eq_powr_iff [of y 2 e] e by simp
    moreover have "u / 2 = 2 powr of_int e / 2 ^ 53"
      by (simp add: u_def powr_diff powr_realpow [symmetric] flip: powr_add)
    ultimately have "u / 2 \<le> y / 2 ^ 53"
      by (simp add: divide_right_mono)
    moreover have "(0::real) \<le> 1 / 2 ^ 1075" by simp
    ultimately show ?thesis by linarith
  next
    case False
    then have "e = - 1022" by (simp add: e_def)
    then have "u / 2 = 1 / 2 ^ 1075"
      by (simp add: u_def powr_minus powr_realpow [symmetric] inverse_eq_divide flip: powr_add)
    then show ?thesis using y by simp
  qed
  from 1 2 show ?thesis by (simp add: algebra_simps)
qed


lemma binary64_le_normal:
  assumes "1 / 2 ^ 1022 \<le> y"
  shows "binary64 y \<le> y * (1 + 1 / 2 ^ 53)"
proof -
  have y: "0 < y"
    using assms by (rule less_le_trans [rotated]) simp
  define e where "e = \<lfloor>log 2 y\<rfloor>"
  define u where "u = (2::real) powr of_int (e - 52)"
  have le: "2 powr of_int e \<le> y"
    using y floor_log_eq_powr_iff [of y 2 e] by (simp add: e_def)
  have "(2::real) powr of_int (- 1022) \<le> y"
    using assms by (simp add: powr_minus powr_realpow [symmetric] inverse_eq_divide)
  then have "of_int (- 1022) \<le> log 2 y"
    using y by (simp add: le_log_iff)
  then have "- 1022 \<le> e"
    unfolding e_def by (simp add: le_floor_iff)
  then have "max \<lfloor>log 2 \<bar>y\<bar>\<rfloor> (- 1022) = e"
    using y by (simp add: e_def)
  with y have b: "binary64 y = of_int (round_half_even (y / u)) * u"
    unfolding u_def by (intro binary64_unfold) simp_all
  have u: "0 < u" by (simp add: u_def)
  have "of_int (round_half_even (y / u)) * u \<le> (y / u + 1 / 2) * u"
    using round_half_even_le [of "y / u"] u by (intro mult_right_mono) simp_all
  also have "\<dots> = y + u / 2"
    using u by (simp add: field_simps)
  finally have 1: "binary64 y \<le> y + u / 2"
    using b by simp
  have "u / 2 = 2 powr of_int e / 2 ^ 53"
    by (simp add: u_def powr_diff powr_realpow [symmetric] flip: powr_add)
  with le have "u / 2 \<le> y / 2 ^ 53"
    by (simp add: divide_right_mono)
  with 1 show ?thesis by (simp add: algebra_simps)
qed

lemma binary64_scaled:
  fixes k :: nat
  assumes "2 ^ 52 \<le> \<bar>y\<bar> * 2 ^ k" and "\<bar>y\<bar> * 2 ^ k < 2 ^ 53" and "k \<le> 1074"
  shows "binary64 y = of_int (round_half_even (y * 2 ^ k)) / 2 ^ k"
proof -
  have p: "(2::real) powr of_int (52 - int k) = 2 ^ 52 / 2 ^ k"
    by (simp add: powr_diff powr_realpow [symmetric])
  have q: "(2::real) powr of_int (52 - int k + 1) = 2 ^ 53 / 2 ^ k"
    by (simp add: powr_diff powr_add powr_realpow [symmetric])
  have r: "(2::real) powr of_int (52 - int k - 52) = 1 / 2 ^ k"
    by (simp add: powr_minus powr_realpow [symmetric] inverse_eq_divide)
  have "binary64 y = of_int (round_half_even (y / 2 powr of_int (52 - int k - 52))) *
          2 powr of_int (52 - int k - 52)"
  proof (rule binary64_at)
    show "2 powr of_int (52 - int k) \<le> \<bar>y\<bar>"
      using assms(1) unfolding p by (simp add: field_simps)
    show "\<bar>y\<bar> < 2 powr of_int (52 - int k + 1)"
      using assms(2) unfolding q by (simp add: field_simps)
    show "- 1022 \<le> 52 - int k"
      using assms(3) by simp
  qed
  then show ?thesis
    unfolding r by simp
qed

lemma binary64_of_int:
  assumes "\<bar>n\<bar> < 2 ^ 53"
  shows "binary64 (of_int n) = of_int n"
proof (cases "n = 0")
  case True
  then show ?thesis by (simp add: binary64_def)
next
  case False
  define y :: real where "y = of_int n"
  have y: "1 \<le> \<bar>y\<bar>" "\<bar>y\<bar> < 2 ^ 53"
    using False assms unfolding y_def
    by (simp_all flip: of_int_abs add: of_int_less_iff [of _ "2 ^ 53", simplified])
  define e where "e = \<lfloor>log 2 \<bar>y\<bar>\<rfloor>"
  have "0 \<le> log 2 \<bar>y\<bar>"
    using y(1) by simp
  then have e0: "0 \<le> e"
    by (simp add: e_def)
  have "\<bar>y\<bar> < 2 powr 53"
    using y(2) by (simp add: powr_realpow [symmetric])
  then have "log 2 \<bar>y\<bar> < 53"
    using y(1) by (simp add: log_less_iff)
  then have e52: "e \<le> 52"
    unfolding e_def by (simp add: floor_le_iff)
  define m where "m = nat (52 - e)"
  have u: "(2::real) powr of_int (e - 52) = 1 / 2 ^ m"
  proof -
    have "of_int (e - 52) = - real m"
      using e52 by (simp add: m_def)
    then show ?thesis
      by (simp add: powr_minus powr_realpow inverse_eq_divide)
  qed
  have "max \<lfloor>log 2 \<bar>y\<bar>\<rfloor> (- 1022) = e"
    using e0 by (simp add: e_def)
  moreover have "y \<noteq> 0"
    using y(1) by auto
  ultimately have "binary64 y =
      of_int (round_half_even (y / 2 powr of_int (e - 52))) * 2 powr of_int (e - 52)"
    by (intro binary64_unfold)
  then have "binary64 y = of_int (round_half_even (y / (1 / 2 ^ m))) * (1 / 2 ^ m)"
    by (simp only: u)
  also have "y / (1 / 2 ^ m) = of_int (n * 2 ^ m)"
    by (simp add: y_def)
  finally have "binary64 y = of_int (n * 2 ^ m) * (1 / 2 ^ m)"
    by (simp only: round_half_even_of_int)
  then show ?thesis
    by (simp add: y_def)
qed

lemma binary64_numeral [simp]:
  "numeral n < (2 ^ 53 :: int) \<Longrightarrow> binary64 (numeral n) = numeral n"
  using binary64_of_int [of "numeral n"] by simp

lemma binary64_zero [simp]: "binary64 0 = 0"
  by (simp add: binary64_def)

lemma js_times_nonneg: "0 \<le> a \<Longrightarrow> 0 \<le> b \<Longrightarrow> 0 \<le> js_times a b"
  by (simp add: js_times_def binary64_nonneg)

lemma js_times_le:
  "0 \<le> a \<Longrightarrow> 0 \<le> b \<Longrightarrow> js_times a b \<le> a * b * (1 + 1 / 2 ^ 53) + 1 / 2 ^ 1075"
  unfolding js_times_def by (rule binary64_le) simp

section \<open>The extracted region\<close>

lemma getCroppedImg_canvas_drawable:
  "getContext_2d b \<Longrightarrow> \<not> img_broken img \<Longrightarrow>
     getCroppedImg_canvas b img crop =
       Inr \<lparr>canvas_width = js_times (crop_width crop) (pixelRatio b),
            canvas_height = js_times (crop_height crop) (pixelRatio b),
            transform = (pixelRatio b, 0, 0, pixelRatio b, 0, 0),
            imageSmoothingQuality = high,
            drawn = [\<lparr>sx = js_times (crop_x crop) (scaleX img),
                      sy = js_times (crop_y crop) (scaleY img),
                      sw = js_times (crop_width crop) (scaleX img),
                      sh = js_times (crop_height crop) (scaleY img),
                      dx = 0, dy = 0, dw = crop_width crop, dh = crop_height crop\<rparr>]\<rparr>"
  by (simp add: getCroppedImg_canvas_def createElement_canvas_def Let_def)

lemma getCroppedImg_canvas_no_context:
  "\<not> getContext_2d b \<Longrightarrow> getCroppedImg_canvas b img crop = Inl CanvasContextError"
  by (simp add: getCroppedImg_canvas_def Let_def)

lemma getCroppedImg_canvas_broken:
  "getContext_2d b \<Longrightarrow> img_broken img \<Longrightarrow>
     getCroppedImg_canvas b img crop = Inl InvalidStateError"
  by (simp add: getCroppedImg_canvas_def Let_def)

text \<open>
  C4. When the displayed image has positive width and height and a context is there,
  \<^verbatim>\<open>getCroppedImg\<close> calls \<^verbatim>\<open>drawImage\<close> once, and the source rectangle it passes is the
  selection scaled by \<open>naturalWidth / width\<close> along X and by \<open>naturalHeight / height\<close>
  along Y, in the arithmetic of the program: \<open>x\<close> and \<open>width\<close> take the first factor
  only, \<open>y\<close> and \<open>height\<close> the second. The mapping is arithmetic on the arguments and
  reads nothing else. For an image that did not decode the call throws.
\<close>

theorem mapping_scales_selection:
  assumes "0 < img_width img" and "0 < img_height img" and "getContext_2d b"
  shows "(img_broken img \<longrightarrow> getCroppedImg_canvas b img crop = Inl InvalidStateError) \<and>
         (\<not> img_broken img \<longrightarrow>
            (\<exists>c. getCroppedImg_canvas b img crop = Inr c \<and>
               map (\<lambda>d. (sx d, sy d, sw d, sh d)) (drawn c) =
                 [(js_times (crop_x crop)
                     (js_divide (real (naturalWidth img)) (real (img_width img))),
                   js_times (crop_y crop)
                     (js_divide (real (naturalHeight img)) (real (img_height img))),
                   js_times (crop_width crop)
                     (js_divide (real (naturalWidth img)) (real (img_width img))),
                   js_times (crop_height crop)
                     (js_divide (real (naturalHeight img)) (real (img_height img))))]))"
  using getCroppedImg_canvas_drawable [OF assms(3), of img crop]
    getCroppedImg_canvas_broken [OF assms(3), of img crop]
  by (auto simp: scaleX_def scaleY_def)

theorem mapping_scales_selection_witness:
  "0 < img_width example_img \<and> 0 < img_height example_img \<and> getContext_2d example_browser \<and>
   \<not> img_broken example_img \<and>
   (\<exists>c. getCroppedImg_canvas example_browser example_img example_crop = Inr c \<and>
        map (\<lambda>d. (sx d, sy d, sw d, sh d)) (drawn c) = [(40, 80, 400, 200)]) \<and>
   0 < img_width broken_img \<and> 0 < img_height broken_img \<and> img_broken broken_img \<and>
   getCroppedImg_canvas example_browser broken_img example_crop = Inl InvalidStateError"
proof -
  have w: "0 < img_width example_img" and h: "0 < img_height example_img"
    and g: "getContext_2d example_browser" and n: "\<not> img_broken example_img"
    by (simp_all add: example_img_def example_browser_def)
  have w': "0 < img_width broken_img" and h': "0 < img_height broken_img"
    and n': "img_broken broken_img"
    by (simp_all add: broken_img_def)
  show ?thesis
    using w h g n w' h' n' mapping_scales_selection [OF w h g, of example_crop]
      mapping_scales_selection [OF w' h' g, of example_crop]
    by (simp add: example_img_def example_crop_def js_times_def js_divide_def)
qed

text \<open>
  C5. With a context and a device pixel ratio \<open>d\<close> other than zero, the canvas that is
  encoded has \<open>width = w * d\<close> and \<open>height = h * d\<close> for a selection of display size
  \<open>w\<close> by \<open>h\<close>, the products being the program's; its transform scales by \<open>d\<close>, its
  smoothing quality is \<^verbatim>\<open>high\<close>, the greatest of the three, and exactly one
  \<^verbatim>\<open>drawImage\<close> was made on it, from the mapped rectangle of the source onto
  \<open>(0, 0, w, h)\<close>. The string returned is the encoding of that canvas. For an image
  that did not decode nothing is encoded: \<^verbatim>\<open>drawImage\<close> throws.
\<close>

theorem raster_at_device_density:
  assumes "getContext_2d b" and "devicePixelRatio b \<noteq> 0"
  shows "(img_broken img \<longrightarrow> getCroppedImg b img crop fileType = Inl InvalidStateError) \<and>
         (\<not> img_broken img \<longrightarrow>
            (\<exists>c. getCroppedImg_canvas b img crop = Inr c \<and>
               getCroppedImg b img crop fileType = Inr (toDataURL b c fileType) \<and>
               canvas_width c = js_times (crop_width crop) (devicePixelRatio b) \<and>
               canvas_height c = js_times (crop_height crop) (devicePixelRatio b) \<and>
               transform c = (devicePixelRatio b, 0, 0, devicePixelRatio b, 0, 0) \<and>
               imageSmoothingQuality c = high \<and>
               drawn c = [\<lparr>sx = js_times (crop_x crop) (scaleX img),
                            sy = js_times (crop_y crop) (scaleY img),
                            sw = js_times (crop_width crop) (scaleX img),
                            sh = js_times (crop_height crop) (scaleY img),
                            dx = 0, dy = 0, dw = crop_width crop, dh = crop_height crop\<rparr>]))"
  using getCroppedImg_canvas_drawable [OF assms(1), of img crop]
    getCroppedImg_canvas_broken [OF assms(1), of img crop] assms(2)
  by (auto simp: getCroppedImg_def pixelRatio_def)

theorem raster_at_device_density_witness:
  "getContext_2d example_browser \<and> devicePixelRatio example_browser \<noteq> 0 \<and>
   \<not> img_broken example_img \<and>
   (\<exists>c. getCroppedImg_canvas example_browser example_img example_crop = Inr c \<and>
        getCroppedImg example_browser example_img example_crop ''image/jpeg'' =
          Inr ''data:image/jpeg;base64,/9j/4AAQ'' \<and>
        canvas_width c = 200 \<and> canvas_height c = 100 \<and>
        transform c = (2, 0, 0, 2, 0, 0) \<and> imageSmoothingQuality c = high \<and>
        drawn c = [\<lparr>sx = 40, sy = 80, sw = 400, sh = 200, dx = 0, dy = 0, dw = 100, dh = 50\<rparr>]) \<and>
   img_broken broken_img \<and>
   getCroppedImg example_browser broken_img example_crop ''image/jpeg'' = Inl InvalidStateError"
proof -
  have g: "getContext_2d example_browser" and d: "devicePixelRatio example_browser \<noteq> 0"
    and n: "\<not> img_broken example_img" and n': "img_broken broken_img"
    by (simp_all add: example_browser_def example_img_def broken_img_def)
  show ?thesis
    using g d n n'
      raster_at_device_density [OF g d, of example_img example_crop "''image/jpeg''"]
      raster_at_device_density [OF g d, of broken_img example_crop "''image/jpeg''"]
    by (auto simp: example_img_def example_crop_def example_browser_def example_toDataURL_def
        scaleX_def scaleY_def js_times_def js_divide_def)
qed

lemma scaled_extent_bound:
  fixes x w :: real and N D :: nat
  assumes D: "0 < D" "D < 2 ^ 32" and x: "0 \<le> x" and w: "0 \<le> w" and xw: "x + w \<le> real D"
  shows "0 \<le> js_times x (js_divide (real N) (real D))"
    and "0 \<le> js_times w (js_divide (real N) (real D))"
    and "js_times x (js_divide (real N) (real D)) + js_times w (js_divide (real N) (real D))
           \<le> real N * (1 + 1 / 2 ^ 53)\<^sup>2 + 1 / 2 ^ 1074"
proof -
  define s where "s = js_divide (real N) (real D)"
  define k :: real where "k = 1 + 1 / 2 ^ 53"
  have k: "0 \<le> k" by (simp add: k_def)
  have s0: "0 \<le> s"
    unfolding s_def js_divide_def by (rule binary64_nonneg) simp
  have sq: "s \<le> real N / real D * k"
  proof (cases "N = 0")
    case True
    then show ?thesis by (simp add: s_def js_divide_def)
  next
    case False
    have "real D \<le> 2 ^ 32"
      using D(2) by (metis less_imp_le of_nat_le_iff of_nat_numeral of_nat_power)
    then have "1 / 2 ^ 32 \<le> 1 / real D"
      using D(1) by (simp add: field_simps)
    also have "\<dots> \<le> real N / real D"
      using False D(1) by (simp add: divide_right_mono)
    finally have "(1::real) / 2 ^ 1022 \<le> real N / real D"
      by (rule order_trans [rotated]) simp
    then show ?thesis
      unfolding s_def js_divide_def k_def by (rule binary64_le_normal)
  qed
  show a0: "0 \<le> js_times x (js_divide (real N) (real D))"
    using x s0 unfolding s_def by (rule js_times_nonneg)
  show b0: "0 \<le> js_times w (js_divide (real N) (real D))"
    using w s0 unfolding s_def by (rule js_times_nonneg)
  have a: "js_times x s \<le> x * s * k + 1 / 2 ^ 1075"
    unfolding k_def using x s0 by (rule js_times_le)
  have b: "js_times w s \<le> w * s * k + 1 / 2 ^ 1075"
    unfolding k_def using w s0 by (rule js_times_le)
  have "(x + w) * (s * k) \<le> real D * (s * k)"
    using xw s0 k by (intro mult_right_mono) simp_all
  also have "\<dots> \<le> real D * (real N / real D * k * k)"
    using sq k by (intro mult_left_mono mult_right_mono) simp_all
  also have "\<dots> = real N * k\<^sup>2"
    using D(1) by (simp add: power2_eq_square)
  finally have c: "(x + w) * (s * k) \<le> real N * k\<^sup>2" .
  have "js_times x s + js_times w s \<le> (x + w) * (s * k) + (1 / 2 ^ 1075 + 1 / 2 ^ 1075)"
    using a b by (simp add: algebra_simps)
  also have "(1::real) / 2 ^ 1075 + 1 / 2 ^ 1075 = 1 / 2 ^ 1074"
    by simp
  finally show "js_times x (js_divide (real N) (real D)) + js_times w (js_divide (real N) (real D))
           \<le> real N * (1 + 1 / 2 ^ 53)\<^sup>2 + 1 / 2 ^ 1074"
    using c unfolding s_def k_def by linarith
qed

text \<open>
  C6 (amended). For a displayed image of positive size and a selection inside it
  (\<open>0 \<le> x\<close>, \<open>0 \<le> y\<close>, \<open>x + width \<le> displayWidth\<close>, \<open>y + height \<le> displayHeight\<close>,
  \<open>0 < width\<close>, \<open>0 < height\<close>), the source rectangle that \<^verbatim>\<open>getCroppedImg\<close> passes to
  \<^verbatim>\<open>drawImage\<close> has the rounded products for its four numbers, nothing clamps them,
  none of them is negative, and it ends at most at
  \<open>naturalWidth * (1 + 2 ^ - 53) ^ 2 + 2 ^ - 1074\<close> along X and at most at
  \<open>naturalHeight * (1 + 2 ^ - 53) ^ 2 + 2 ^ - 1074\<close> along Y: it lies within the image
  up to the rounding of the division and of the multiplication. The displayed width
  and height are below \<open>2 ^ 32\<close>, as attributes of type unsigned long are, a context is
  there and the image decoded.
\<close>

theorem mapped_rectangle_within_rounding:
  assumes "0 < img_width img" and "0 < img_height img"
    and "img_width img < 2 ^ 32" and "img_height img < 2 ^ 32"
    and "0 \<le> crop_x crop" and "0 \<le> crop_y crop"
    and "crop_x crop + crop_width crop \<le> real (img_width img)"
    and "crop_y crop + crop_height crop \<le> real (img_height img)"
    and "0 < crop_width crop" and "0 < crop_height crop"
    and "getContext_2d b" and "\<not> img_broken img"
  shows "\<exists>c d. getCroppedImg_canvas b img crop = Inr c \<and> drawn c = [d] \<and>
           sx d = js_times (crop_x crop) (scaleX img) \<and>
           sw d = js_times (crop_width crop) (scaleX img) \<and>
           sy d = js_times (crop_y crop) (scaleY img) \<and>
           sh d = js_times (crop_height crop) (scaleY img) \<and>
           0 \<le> sx d \<and> 0 \<le> sw d \<and>
           sx d + sw d \<le> real (naturalWidth img) * (1 + 1 / 2 ^ 53)\<^sup>2 + 1 / 2 ^ 1074 \<and>
           0 \<le> sy d \<and> 0 \<le> sh d \<and>
           sy d + sh d \<le> real (naturalHeight img) * (1 + 1 / 2 ^ 53)\<^sup>2 + 1 / 2 ^ 1074"
proof -
  have w: "0 \<le> crop_width crop" and h: "0 \<le> crop_height crop"
    using assms(9,10) by simp_all
  note X = scaled_extent_bound [OF assms(1,3,5) w assms(7), of "naturalWidth img"]
  note Y = scaled_extent_bound [OF assms(2,4,6) h assms(8), of "naturalHeight img"]
  show ?thesis
    using getCroppedImg_canvas_drawable [OF assms(11,12), of crop] X Y
    by (simp add: scaleX_def scaleY_def)
qed

theorem mapped_rectangle_within_rounding_witness:
  "0 < img_width small_img \<and> 0 < img_height small_img \<and>
   img_width small_img < 2 ^ 32 \<and> img_height small_img < 2 ^ 32 \<and>
   0 \<le> crop_x edge_crop \<and> 0 \<le> crop_y edge_crop \<and>
   crop_x edge_crop + crop_width edge_crop \<le> real (img_width small_img) \<and>
   crop_y edge_crop + crop_height edge_crop \<le> real (img_height small_img) \<and>
   0 < crop_width edge_crop \<and> 0 < crop_height edge_crop \<and>
   getContext_2d example_browser \<and> \<not> img_broken small_img \<and>
   (\<exists>c d. getCroppedImg_canvas example_browser small_img edge_crop = Inr c \<and> drawn c = [d] \<and>
      0 \<le> sx d \<and> 0 \<le> sw d \<and>
      sx d + sw d \<le> real (naturalWidth small_img) * (1 + 1 / 2 ^ 53)\<^sup>2 + 1 / 2 ^ 1074 \<and>
      0 \<le> sy d \<and> 0 \<le> sh d \<and>
      sy d + sh d \<le> real (naturalHeight small_img) * (1 + 1 / 2 ^ 53)\<^sup>2 + 1 / 2 ^ 1074)"
proof -
  have a: "0 < img_width small_img" "0 < img_height small_img"
    "img_width small_img < 2 ^ 32" "img_height small_img < 2 ^ 32"
    "0 \<le> crop_x edge_crop" "0 \<le> crop_y edge_crop"
    "crop_x edge_crop + crop_width edge_crop \<le> real (img_width small_img)"
    "crop_y edge_crop + crop_height edge_crop \<le> real (img_height small_img)"
    "0 < crop_width edge_crop" "0 < crop_height edge_crop"
    "getContext_2d example_browser" "\<not> img_broken small_img"
    by (simp_all add: small_img_def edge_crop_def example_browser_def)
  from mapped_rectangle_within_rounding [OF a]
  obtain c d where "getCroppedImg_canvas example_browser small_img edge_crop = Inr c"
    "drawn c = [d]" "0 \<le> sx d" "0 \<le> sw d"
    "sx d + sw d \<le> real (naturalWidth small_img) * (1 + 1 / 2 ^ 53)\<^sup>2 + 1 / 2 ^ 1074"
    "0 \<le> sy d" "0 \<le> sh d"
    "sy d + sh d \<le> real (naturalHeight small_img) * (1 + 1 / 2 ^ 53)\<^sup>2 + 1 / 2 ^ 1074"
    by blast
  with a show ?thesis by blast
qed

lemma binary64_27_5: "binary64 (27 / 5) = 6079859496950170 / 2 ^ 50"
  by (subst binary64_scaled [where k = 50]) (simp_all add: round_half_even_def)

lemma js_times_2_scale: "binary64 (2 * (6079859496950170 / 2 ^ 50)) = 6079859496950170 / 2 ^ 49"
  by (subst binary64_scaled [where k = 49]) (simp_all add: round_half_even_def)

lemma js_times_3_scale: "binary64 (3 * (6079859496950170 / 2 ^ 50)) = 4559894622712628 / 2 ^ 48"
  by (subst binary64_scaled [where k = 48]) (simp_all add: round_half_even_def)

lemma js_times_5_scale: "binary64 (5 * (6079859496950170 / 2 ^ 50)) = 27"
  by (subst binary64_scaled [where k = 48]) (simp_all add: round_half_even_def)

text \<open>
  C6 as stated fails: a 27 by 27 image shown at 5 by 5, the selection from \<open>x = 2\<close> of
  width 3, which ends at the right edge of the display. The scale is \<open>27 / 5\<close> rounded,
  the mapped \<open>x\<close> is \<open>10.8\<close> and the mapped width is \<open>16.200000000000003\<close> as binary64
  values, and their sum is \<open>27 + 2 ^ - 48\<close>: beyond \<open>naturalWidth\<close>.
\<close>

theorem right_edge_beyond_source_counterexample:
  "0 < img_width small_img \<and> 0 < img_height small_img \<and>
   0 \<le> crop_x edge_crop \<and> 0 \<le> crop_y edge_crop \<and>
   crop_x edge_crop + crop_width edge_crop \<le> real (img_width small_img) \<and>
   crop_y edge_crop + crop_height edge_crop \<le> real (img_height small_img) \<and>
   0 < crop_width edge_crop \<and> 0 < crop_height edge_crop \<and>
   getCroppedImg_canvas example_browser small_img edge_crop =
     Inr \<lparr>canvas_width = 6, canvas_height = 10, transform = (2, 0, 0, 2, 0, 0),
          imageSmoothingQuality = high,
          drawn = [\<lparr>sx = 6079859496950170 / 2 ^ 49, sy = 0,
                    sw = 4559894622712628 / 2 ^ 48, sh = 27,
                    dx = 0, dy = 0, dw = 3, dh = 5\<rparr>]\<rparr> \<and>
   real (naturalWidth small_img) < 6079859496950170 / 2 ^ 49 + 4559894622712628 / 2 ^ 48"
proof -
  have s: "scaleX small_img = 6079859496950170 / 2 ^ 50" "scaleY small_img = 6079859496950170 / 2 ^ 50"
    using binary64_27_5 by (simp_all add: scaleX_def scaleY_def js_divide_def small_img_def)
  have x: "js_times (crop_x edge_crop) (scaleX small_img) = 6079859496950170 / 2 ^ 49"
    and w: "js_times (crop_width edge_crop) (scaleX small_img) = 4559894622712628 / 2 ^ 48"
    and y: "js_times (crop_y edge_crop) (scaleY small_img) = 0"
    and h: "js_times (crop_height edge_crop) (scaleY small_img) = 27"
    unfolding s js_times_def
    using js_times_2_scale js_times_3_scale js_times_5_scale by (simp_all add: edge_crop_def)
  have g: "getContext_2d example_browser" and n: "\<not> img_broken small_img"
    by (simp_all add: example_browser_def small_img_def)
  have "getCroppedImg_canvas example_browser small_img edge_crop =
     Inr \<lparr>canvas_width = 6, canvas_height = 10, transform = (2, 0, 0, 2, 0, 0),
          imageSmoothingQuality = high,
          drawn = [\<lparr>sx = 6079859496950170 / 2 ^ 49, sy = 0,
                    sw = 4559894622712628 / 2 ^ 48, sh = 27,
                    dx = 0, dy = 0, dw = 3, dh = 5\<rparr>]\<rparr>"
    unfolding getCroppedImg_canvas_drawable [OF g n] x w y h
    by (simp add: edge_crop_def pixelRatio_def example_browser_def js_times_def)
  then show ?thesis
    by (simp add: small_img_def edge_crop_def)
qed

section \<open>The example sessions, evaluated\<close>

lemma selecting_eq:
  "selecting =
     \<lparr>appState = CROPPING, inputMode = mode_upload, imageToCrop = Some (example_png, 0),
      uploadedImage = None, textProblem = [], submittedText = None, solution = None,
      error = None, completedCrop = Some example_crop, isProcessing = False, nextURL = 1,
      liveURLs = [(0, OfFile example_png)], revoked = [], pending = []\<rparr>"
  by (simp add: selecting_def run_def dispatch_def unmount_def modal_mounted_def
      uploader_disabled_def handleFile_def handleImageSelect_def createObjectURL_def
      startsWith_def initial_def example_png_def Let_def)

lemma selecting_zero_width_eq:
  "selecting_zero_width =
     \<lparr>appState = CROPPING, inputMode = mode_upload, imageToCrop = Some (example_png, 0),
      uploadedImage = None, textProblem = [], submittedText = None, solution = None,
      error = None, completedCrop = Some zero_width_crop, isProcessing = False, nextURL = 1,
      liveURLs = [(0, OfFile example_png)], revoked = [], pending = []\<rparr>"
  by (simp add: selecting_zero_width_def run_def dispatch_def unmount_def modal_mounted_def
      uploader_disabled_def handleFile_def handleImageSelect_def createObjectURL_def
      startsWith_def initial_def example_png_def Let_def)

lemma analyzing_image_eq:
  "analyzing_image =
     \<lparr>appState = ANALYZING, inputMode = mode_upload, imageToCrop = None,
      uploadedImage = Some 1, textProblem = [], submittedText = None, solution = None,
      error = None, completedCrop = None, isProcessing = False, nextURL = 2,
      liveURLs = [(0, OfFile example_png), (1, OfBlob (Blob ''image/jpeg'' ''/9j/4AAQ''))],
      revoked = [],
      pending = [ImageRequest ''Solve the math problem shown in this image.''
                   \<lparr>mimeType = ''image/jpeg'', data = Some ''/9j/4AAQ''\<rparr>]\<rparr>"
  by (simp add: analyzing_image_def selecting_eq dispatch_def unmount_def modal_mounted_def
      handleConfirmCrop_def handleCropConfirm_def createObjectURL_def
      solveMathProblemFromImage_def crop_defs string_defs
      example_browser_def example_img_def example_crop_def example_toDataURL_def
      example_fetch_blob_def Let_def)

lemma typed_eq:
  "typed = initial\<lparr>inputMode := mode_text, textProblem := utf16 ''2x+5=15''\<rparr>"
  by (simp add: typed_def run_def dispatch_def unmount_def modal_mounted_def
      textarea_disabled_def initial_def)

lemma typed_blank_eq:
  "typed_blank = initial\<lparr>inputMode := mode_text, textProblem := blank_text\<rparr>"
  by (simp add: typed_blank_def run_def dispatch_def unmount_def modal_mounted_def
      textarea_disabled_def initial_def)

lemma typed_zero_width_space_eq:
  "typed_zero_width_space =
     initial\<lparr>inputMode := mode_text, textProblem := zero_width_space_text\<rparr>"
  by (simp add: typed_zero_width_space_def run_def dispatch_def unmount_def modal_mounted_def
      textarea_disabled_def initial_def)


section \<open>The answer of the solve call\<close>

lemma startsWith_Error_tag: "startsWith (''Error: '' @ r) ''Error:''"
  by (simp add: startsWith_def)

lemma replace_Error_tag: "replace (''Error: '' @ r) ''Error: '' [] = r"
  by (simp add: startsWith_def)

lemma handleCropConfirm_settled_tagged:
  "handleCropConfirm_settled w (''Error: '' @ r) =
     w\<lparr>error := Some (if r = [] then ''An unexpected error occurred.'' else r), appState := ERROR\<rparr>"
  unfolding handleCropConfirm_settled_def
  by (simp only: startsWith_Error_tag replace_Error_tag if_True Let_def)

lemma handleTextSubmit_settled_tagged:
  "handleTextSubmit_settled w (''Error: '' @ r) =
     w\<lparr>error := Some (if r = [] then ''An unexpected error occurred.'' else r), appState := ERROR\<rparr>"
  unfolding handleTextSubmit_settled_def
  by (simp only: startsWith_Error_tag replace_Error_tag if_True Let_def)

lemma settle_tagged:
  assumes "pending w \<noteq> []" and "out = Fulfilled (''Error: '' @ r) \<or> out = RejectedError r"
  shows "settle w out =
           w\<lparr>pending := tl (pending w),
             error := Some (if r = [] then ''An unexpected error occurred.'' else r),
             appState := ERROR\<rparr>"
proof -
  from assms(2) have i: "solveMathProblemFromImage_settled out = ''Error: '' @ r"
    by (auto simp: solveMathProblemFromImage_settled_def)
  from assms(2) have t: "solveMathProblemFromText_settled out = ''Error: '' @ r"
    by (auto simp: solveMathProblemFromText_settled_def)
  show ?thesis
  proof (cases "pending w")
    case Nil
    with assms(1) show ?thesis by simp
  next
    case (Cons q rest)
    then show ?thesis
      by (cases q)
        (simp_all add: settle_def i t handleCropConfirm_settled_tagged
          handleTextSubmit_settled_tagged del: append.simps)
  qed
qed

text \<open>
  A call that is rejected with an \<^verbatim>\<open>Error\<close> ends in \<^verbatim>\<open>ERROR\<close>, with the error's message,
  or with the fallback text when the message is empty.
\<close>

lemma rejected_with_Error_fails:
  assumes "pending w \<noteq> []"
  shows "appState (dispatch w (Settled (RejectedError m))) = ERROR \<and>
         error (dispatch w (Settled (RejectedError m))) =
           Some (if m = [] then ''An unexpected error occurred.'' else m)"
  using assms settle_tagged [OF assms, of "RejectedError m" m]
  by (simp add: dispatch_def unmount_def modal_mounted_def)

text \<open>
  C1. The claim is that every failure of the solve call ends in Failed. The call being
  rejected with a value that is not an \<^verbatim>\<open>Error\<close> (so one without a message), the service
  returns its fallback sentence without the \<^verbatim>\<open>Error:\<close> tag, and \<^verbatim>\<open>handleCropConfirm\<close>
  takes it for the solution: the session ends in \<^verbatim>\<open>SUCCESS\<close> with that sentence as the
  solution and no error.
\<close>

theorem rejection_without_message_ends_in_success:
  "appState analyzing_image = ANALYZING \<and>
   appState (dispatch analyzing_image (Settled RejectedOther)) = SUCCESS \<and>
   solution (dispatch analyzing_image (Settled RejectedOther)) =
     Some ''An unknown error occurred while analyzing the image.'' \<and>
   error (dispatch analyzing_image (Settled RejectedOther)) = None"
  by (simp add: analyzing_image_eq dispatch_def unmount_def modal_mounted_def settle_def
      handleCropConfirm_settled_def solveMathProblemFromImage_settled_def startsWith_def)

text \<open>
  C7 (amended). Whenever the solve call completes with a text that begins with
  \<^verbatim>\<open>Error: \<close> (the collaborator answers with such a text, or is rejected with an
  \<^verbatim>\<open>Error\<close>, whose message the service tags), the session goes to \<^verbatim>\<open>ERROR\<close>, and its
  message is the remainder of the text when the remainder is not empty, and
  \<^verbatim>\<open>An unexpected error occurred.\<close> when it is empty.
\<close>

theorem tagged_response_fails:
  assumes "pending w \<noteq> []" and "out = Fulfilled (''Error: '' @ r) \<or> out = RejectedError r"
  shows "appState (dispatch w (Settled out)) = ERROR \<and>
         error (dispatch w (Settled out)) =
           Some (if r = [] then ''An unexpected error occurred.'' else r) \<and>
         solution (dispatch w (Settled out)) = solution w \<and>
         pending (dispatch w (Settled out)) = tl (pending w)"
  using assms(1) settle_tagged [OF assms]
  by (simp add: dispatch_def unmount_def modal_mounted_def)

theorem tagged_response_fails_witness:
  "pending analyzing_image \<noteq> [] \<and>
   appState (dispatch analyzing_image (Settled (Fulfilled ''Error: rate limited''))) = ERROR \<and>
   error (dispatch analyzing_image (Settled (Fulfilled ''Error: rate limited''))) =
     Some ''rate limited''"
proof -
  have p: "pending analyzing_image \<noteq> []"
    by (simp add: analyzing_image_eq)
  have o: "Fulfilled ''Error: rate limited'' = Fulfilled (''Error: '' @ ''rate limited'') \<or>
           Fulfilled ''Error: rate limited'' = RejectedError ''rate limited''"
    by simp
  show ?thesis
    using p tagged_response_fails [OF p o] by simp
qed

text \<open>
  C7 as stated fails when nothing follows the tag: for the answer \<^verbatim>\<open>Error: \<close> the
  remainder is the empty string, and the message of the session is the fallback text.
\<close>

theorem empty_remainder_counterexample:
  "appState (dispatch analyzing_image (Settled (Fulfilled ''Error: ''))) = ERROR \<and>
   drop (length ''Error: '') ''Error: '' = [] \<and>
   error (dispatch analyzing_image (Settled (Fulfilled ''Error: ''))) =
     Some ''An unexpected error occurred.'' \<and>
   error (dispatch analyzing_image (Settled (Fulfilled ''Error: ''))) \<noteq> Some []"
  by (simp add: analyzing_image_eq dispatch_def unmount_def modal_mounted_def settle_def
      handleCropConfirm_settled_def solveMathProblemFromImage_settled_def startsWith_def)

section \<open>Submitting a typed problem\<close>

lemma dropWhile_all_iff: "(\<forall>x\<in>set (dropWhile P xs). P x) \<longleftrightarrow> (\<forall>x\<in>set xs. P x)"
proof
  assume a: "\<forall>x\<in>set (dropWhile P xs). P x"
  have "dropWhile P xs = []"
  proof (rule ccontr)
    assume n: "dropWhile P xs \<noteq> []"
    then have "\<not> P (hd (dropWhile P xs))"
      by (rule hd_dropWhile)
    moreover from n have "hd (dropWhile P xs) \<in> set (dropWhile P xs)"
      by simp
    ultimately show False
      using a by blast
  qed
  then show "\<forall>x\<in>set xs. P x"
    by (simp add: dropWhile_eq_Nil_conv)
next
  assume "\<forall>x\<in>set xs. P x"
  then show "\<forall>x\<in>set (dropWhile P xs). P x"
    by (auto dest: set_dropWhileD)
qed

text \<open>\<^verbatim>\<open>s.trim()\<close> is empty exactly for a text of white space and line terminators only.\<close>

lemma trim_Nil_iff: "trim s = [] \<longleftrightarrow> list_all isWhiteSpace s"
  by (simp add: trim_def dropWhile_eq_Nil_conv dropWhile_all_iff list_all_iff)

lemma dispatch_SubmitForm_empty:
  "trim (textProblem w) = [] \<Longrightarrow> dispatch w SubmitForm = w"
  by (simp add: dispatch_def submit_disabled_def)

lemma dispatch_SubmitForm:
  assumes "appState w = IDLE" and "inputMode w = mode_text" and "trim (textProblem w) \<noteq> []"
  shows "dispatch w SubmitForm =
           w\<lparr>submittedText := Some (textProblem w), uploadedImage := None, appState := ANALYZING,
             error := None, solution := None,
             pending := pending w @ [TextRequest (textProblem w)],
             completedCrop := None, isProcessing := False\<rparr>"
  using assms
  by (simp add: dispatch_def submit_disabled_def handleTextSubmit_def unmount_def
      modal_mounted_def solveMathProblemFromText_def Let_def)

lemma settle_text_success:
  assumes "pending w = [TextRequest p]" and "\<not> startsWith t ''Error:''"
  shows "dispatch w (Settled (Fulfilled t)) =
           unmount (w\<lparr>pending := [], solution := Some t, appState := SUCCESS\<rparr>)"
  using assms
  by (simp add: dispatch_def settle_def solveMathProblemFromText_settled_def
      handleTextSubmit_settled_def)

text \<open>
  C8. In \<^verbatim>\<open>IDLE\<close> with the text form shown, submitting changes nothing when the text is
  empty or consists of white space and line terminators only. For any other text the
  session goes to \<^verbatim>\<open>ANALYZING\<close> with the text as submitted for its origin and no image,
  one call for that text is issued, and no object URL is created or revoked (nothing
  of the extraction runs). When the collaborator then answers with a text that does not
  carry the error tag, the session is \<^verbatim>\<open>SUCCESS\<close>, its solution is exactly that text, and
  the origin is still the text as submitted.
\<close>

theorem text_submission:
  assumes "appState w = IDLE" and "inputMode w = mode_text"
  shows "(list_all isWhiteSpace (textProblem w) \<longrightarrow>
            handleTextSubmit w = w \<and> dispatch w SubmitForm = w) \<and>
         (\<not> list_all isWhiteSpace (textProblem w) \<longrightarrow>
            appState (dispatch w SubmitForm) = ANALYZING \<and>
            submittedText (dispatch w SubmitForm) = Some (textProblem w) \<and>
            uploadedImage (dispatch w SubmitForm) = None \<and>
            pending (dispatch w SubmitForm) = pending w @ [TextRequest (textProblem w)] \<and>
            nextURL (dispatch w SubmitForm) = nextURL w \<and>
            liveURLs (dispatch w SubmitForm) = liveURLs w \<and>
            revoked (dispatch w SubmitForm) = revoked w \<and>
            (pending w = [] \<and> \<not> startsWith t ''Error:'' \<longrightarrow>
               appState (dispatch (dispatch w SubmitForm) (Settled (Fulfilled t))) = SUCCESS \<and>
               solution (dispatch (dispatch w SubmitForm) (Settled (Fulfilled t))) = Some t \<and>
               error (dispatch (dispatch w SubmitForm) (Settled (Fulfilled t))) = None \<and>
               submittedText (dispatch (dispatch w SubmitForm) (Settled (Fulfilled t))) =
                 Some (textProblem w) \<and>
               uploadedImage (dispatch (dispatch w SubmitForm) (Settled (Fulfilled t))) = None \<and>
               pending (dispatch (dispatch w SubmitForm) (Settled (Fulfilled t))) = []))"
proof (cases "list_all isWhiteSpace (textProblem w)")
  case True
  then have "trim (textProblem w) = []"
    by (simp only: trim_Nil_iff)
  with True show ?thesis
    by (simp add: dispatch_SubmitForm_empty handleTextSubmit_def)
next
  case False
  then have ne: "trim (textProblem w) \<noteq> []"
    by (simp only: trim_Nil_iff not_False_eq_True)
  note sub = dispatch_SubmitForm [OF assms ne]
  have "\<And>p. pending w = [] \<Longrightarrow> \<not> startsWith t ''Error:'' \<Longrightarrow>
          dispatch (dispatch w SubmitForm) (Settled (Fulfilled t)) =
            unmount ((dispatch w SubmitForm)\<lparr>pending := [], solution := Some t, appState := SUCCESS\<rparr>)"
    by (rule settle_text_success [where p = "textProblem w"]) (simp_all add: sub)
  then show ?thesis
    using False by (simp add: sub unmount_def modal_mounted_def)
qed

theorem text_submission_witness:
  "appState typed = IDLE \<and> inputMode typed = mode_text \<and>
   textProblem typed = utf16 ''2x+5=15'' \<and> \<not> list_all isWhiteSpace (textProblem typed) \<and>
   pending typed = [] \<and> \<not> startsWith final_answer ''Error:'' \<and>
   appState (dispatch typed SubmitForm) = ANALYZING \<and>
   pending (dispatch typed SubmitForm) = [TextRequest (utf16 ''2x+5=15'')] \<and>
   appState (dispatch (dispatch typed SubmitForm) (Settled (Fulfilled final_answer))) = SUCCESS \<and>
   solution (dispatch (dispatch typed SubmitForm) (Settled (Fulfilled final_answer))) =
     Some final_answer \<and>
   submittedText (dispatch (dispatch typed SubmitForm) (Settled (Fulfilled final_answer))) =
     Some (utf16 ''2x+5=15'') \<and>
   uploadedImage (dispatch (dispatch typed SubmitForm) (Settled (Fulfilled final_answer))) = None \<and>
   appState typed_blank = IDLE \<and> inputMode typed_blank = mode_text \<and>
   textProblem typed_blank = blank_text \<and> list_all isWhiteSpace (textProblem typed_blank) \<and>
   dispatch typed_blank SubmitForm = typed_blank \<and>
   list_all isWhiteSpace (textProblem (initial\<lparr>inputMode := mode_text\<rparr>)) \<and>
   dispatch (initial\<lparr>inputMode := mode_text\<rparr>) SubmitForm = initial\<lparr>inputMode := mode_text\<rparr> \<and>
   appState typed_zero_width_space = IDLE \<and> inputMode typed_zero_width_space = mode_text \<and>
   \<not> list_all isWhiteSpace (textProblem typed_zero_width_space) \<and>
   appState (dispatch typed_zero_width_space SubmitForm) = ANALYZING"
proof -
  have a: "appState typed = IDLE" and b: "inputMode typed = mode_text"
    and c: "\<not> list_all isWhiteSpace (textProblem typed)" and d: "pending typed = []"
    and e: "\<not> startsWith final_answer ''Error:''"
    and f: "textProblem typed = utf16 ''2x+5=15''"
    by (simp_all add: typed_eq initial_def string_defs final_answer_def)
  have a0: "appState (initial\<lparr>inputMode := mode_text\<rparr>) = IDLE"
    and b0: "inputMode (initial\<lparr>inputMode := mode_text\<rparr>) = mode_text"
    and c0: "list_all isWhiteSpace (textProblem (initial\<lparr>inputMode := mode_text\<rparr>))"
    by (simp_all add: initial_def)
  have a1: "appState typed_blank = IDLE" and b1: "inputMode typed_blank = mode_text"
    and c1: "list_all isWhiteSpace (textProblem typed_blank)"
    and f1: "textProblem typed_blank = blank_text"
    by (simp_all add: typed_blank_eq initial_def blank_text_def isWhiteSpace_def)
  have a2: "appState typed_zero_width_space = IDLE"
    and b2: "inputMode typed_zero_width_space = mode_text"
    and c2: "\<not> list_all isWhiteSpace (textProblem typed_zero_width_space)"
    by (simp_all add: typed_zero_width_space_eq initial_def zero_width_space_text_def
        isWhiteSpace_def)
  show ?thesis
    using a b c d e f a0 b0 c0 a1 b1 c1 f1 a2 b2 c2
      text_submission [OF a b, of final_answer]
      text_submission [OF a0 b0, of final_answer]
      text_submission [OF a1 b1, of final_answer]
      text_submission [OF a2 b2, of final_answer]
    by simp
qed

section \<open>One call in flight\<close>


lemma pending_unmount [simp]: "pending (unmount w) = pending w"
  by (simp add: unmount_def)

lemma appState_unmount [simp]: "appState (unmount w) = appState w"
  by (simp add: unmount_def)

lemma in_flight_ok_unmount [simp]: "in_flight_ok (unmount w) = in_flight_ok w"
  by (simp add: in_flight_ok_def)















section \<open>Confirming a crop\<close>

lemma handleCropConfirm_appState:
  "appState w = CROPPING \<Longrightarrow> appState (handleCropConfirm b w d m) = ANALYZING \<Longrightarrow>
     pending (handleCropConfirm b w d m) = pending w @ [solveMathProblemFromImage d m]"
  by (auto simp: handleCropConfirm_def createObjectURL_def Let_def split: option.splits)

text \<open>
  C10. Whenever confirming a crop takes the session to \<^verbatim>\<open>ANALYZING\<close>, the call issued
  carries the media type \<^verbatim>\<open>image/jpeg\<close>, and its data is read off the canvas encoded as
  \<^verbatim>\<open>image/jpeg\<close>; the file that was selected, whatever its type, has no part in it.
\<close>

theorem crop_is_submitted_as_jpeg:
  assumes "admitted w (ClickCropAndSolve b)"
    and "appState (dispatch w (ClickCropAndSolve b)) = ANALYZING"
  shows "\<exists>crop img c.
           completedCrop w = Some crop \<and> imgRef b = Some img \<and>
           getCroppedImg_canvas b img crop = Inr c \<and>
           pending (dispatch w (ClickCropAndSolve b)) =
             pending w @
               [ImageRequest ''Solve the math problem shown in this image.''
                  \<lparr>mimeType = ''image/jpeg'',
                   data = split_comma_1 (toDataURL b c ''image/jpeg'')\<rparr>]"
proof -
  from assms(1) have st: "appState w = CROPPING"
    by (simp add: modal_mounted_def)
  from assms(1) obtain crop where crop: "completedCrop w = Some crop"
    by auto
  from assms have h: "appState (handleConfirmCrop b w) = ANALYZING"
    by (simp add: dispatch_def)
  from h st crop obtain img where img: "imgRef b = Some img"
    by (cases "imgRef b") (simp_all add: handleConfirmCrop_def)
  from h st crop img obtain c where c: "getCroppedImg_canvas b img crop = Inr c"
    by (cases "getCroppedImg_canvas b img crop")
      (simp_all add: handleConfirmCrop_def getCroppedImg_def Let_def)
  let ?d = "split_comma_1 (toDataURL b c ''image/jpeg'')"
  have eq: "handleConfirmCrop b w =
              handleCropConfirm b (w\<lparr>isProcessing := True\<rparr>) ?d ''image/jpeg''"
    using crop img c by (simp add: handleConfirmCrop_def getCroppedImg_def Let_def)
  have "pending (handleConfirmCrop b w) =
          pending w @ [solveMathProblemFromImage ?d ''image/jpeg'']"
    using handleCropConfirm_appState [of "w\<lparr>isProcessing := True\<rparr>" b ?d "''image/jpeg''"]
      h st unfolding eq by simp
  then have "pending (dispatch w (ClickCropAndSolve b)) =
          pending w @ [solveMathProblemFromImage ?d ''image/jpeg'']"
    using assms(1) by (simp add: dispatch_def)
  with crop img c show ?thesis
    by (simp add: solveMathProblemFromImage_def)
qed

theorem crop_is_submitted_as_jpeg_witness:
  "admitted selecting (ClickCropAndSolve example_browser) \<and>
   appState (dispatch selecting (ClickCropAndSolve example_browser)) = ANALYZING \<and>
   imageToCrop selecting = Some (\<lparr>file_type = ''image/png'', file_name = ''a.png''\<rparr>, 0) \<and>
   pending (dispatch selecting (ClickCropAndSolve example_browser)) =
     [ImageRequest ''Solve the math problem shown in this image.''
        \<lparr>mimeType = ''image/jpeg'', data = Some ''/9j/4AAQ''\<rparr>]"
proof -
  have a: "admitted selecting (ClickCropAndSolve example_browser)"
    by (simp add: selecting_eq modal_mounted_def)
  have b: "appState (dispatch selecting (ClickCropAndSolve example_browser)) = ANALYZING"
    using analyzing_image_eq by (simp add: analyzing_image_def)
  have c: "getCroppedImg_canvas example_browser example_img example_crop = Inr c \<Longrightarrow>
        split_comma_1 (toDataURL example_browser c ''image/jpeg'') = Some ''/9j/4AAQ''" for c
    by (auto simp: crop_defs Let_def example_browser_def example_img_def
        example_toDataURL_def example_crop_def split_comma_1_def)
  show ?thesis
    using a b crop_is_submitted_as_jpeg [OF a b] c
    by (auto simp: selecting_eq example_browser_def example_png_def)
qed

section \<open>Failure of the extraction\<close>

lemma update_isProcessing_same: "\<not> isProcessing w \<Longrightarrow> w\<lparr>isProcessing := False\<rparr> = w"
  by (cases w) simp

lemma dispatch_confirm_failed:
  assumes "admitted w (ClickCropAndSolve b)" and "completedCrop w = Some crop"
    and "imgRef b = Some img" and "getCroppedImg b img crop ''image/jpeg'' = Inl e"
  shows "dispatch w (ClickCropAndSolve b) = w"
proof -
  from assms(1) have m: "modal_mounted w" and p: "\<not> isProcessing w"
    by simp_all
  have "handleConfirmCrop b w = w"
    using assms(2-4) p by (simp add: handleConfirmCrop_def update_isProcessing_same Let_def)
  with assms(1) m show ?thesis
    by (simp add: dispatch_def unmount_def)
qed

text \<open>
  C3 (amended). The extraction makes no check of the rectangle and has no failure for
  an invalid region: for a mapped rectangle of width or height zero or less it succeeds
  as for any other, given a context and an image that decoded. Whenever the extraction
  of a confirmed crop does fail (there is no context, or the image cannot be drawn),
  the session is left as it was: in \<^verbatim>\<open>CROPPING\<close>, with the image to crop, its object
  URL and the completed selection, so that the crop can be tried again.
\<close>

theorem failed_extraction_keeps_selection:
  "(admitted w (ClickCropAndSolve b) \<and> completedCrop w = Some crop \<and> imgRef b = Some img \<and>
    getCroppedImg b img crop ''image/jpeg'' = Inl e \<longrightarrow>
      dispatch w (ClickCropAndSolve b) = w \<and> appState w = CROPPING \<and> imageToCrop w \<noteq> None) \<and>
   ((js_times (crop_width crop') (scaleX img') \<le> 0 \<or>
     js_times (crop_height crop') (scaleY img') \<le> 0) \<and>
    getContext_2d b' \<and> \<not> img_broken img' \<longrightarrow>
      (\<exists>c. getCroppedImg_canvas b' img' crop' = Inr c \<and>
           getCroppedImg b' img' crop' fileType = Inr (toDataURL b' c fileType)))"
proof -
  have a: "admitted w (ClickCropAndSolve b) \<and> completedCrop w = Some crop \<and>
      imgRef b = Some img \<and> getCroppedImg b img crop ''image/jpeg'' = Inl e \<longrightarrow>
      dispatch w (ClickCropAndSolve b) = w \<and> appState w = CROPPING \<and> imageToCrop w \<noteq> None"
    using dispatch_confirm_failed [of w b crop img e] by (auto simp: modal_mounted_def)
  have b: "(js_times (crop_width crop') (scaleX img') \<le> 0 \<or>
     js_times (crop_height crop') (scaleY img') \<le> 0) \<and>
    getContext_2d b' \<and> \<not> img_broken img' \<longrightarrow>
      (\<exists>c. getCroppedImg_canvas b' img' crop' = Inr c \<and>
           getCroppedImg b' img' crop' fileType = Inr (toDataURL b' c fileType))"
    by (simp add: getCroppedImg_def getCroppedImg_canvas_drawable)
  from a b show ?thesis by blast
qed

theorem failed_extraction_keeps_selection_witness:
  "admitted selecting_zero_width (ClickCropAndSolve no_context_browser) \<and>
   completedCrop selecting_zero_width = Some zero_width_crop \<and>
   imgRef no_context_browser = Some example_img \<and>
   getCroppedImg no_context_browser example_img zero_width_crop ''image/jpeg'' =
     Inl CanvasContextError \<and>
   dispatch selecting_zero_width (ClickCropAndSolve no_context_browser) = selecting_zero_width \<and>
   admitted selecting (ClickCropAndSolve broken_image_browser) \<and>
   completedCrop selecting = Some example_crop \<and>
   imgRef broken_image_browser = Some broken_img \<and>
   getCroppedImg broken_image_browser broken_img example_crop ''image/jpeg'' =
     Inl InvalidStateError \<and>
   dispatch selecting (ClickCropAndSolve broken_image_browser) = selecting \<and>
   appState selecting = CROPPING \<and> imageToCrop selecting = Some (example_png, 0) \<and>
   js_times (crop_width zero_width_crop) (scaleX example_img) \<le> 0 \<and>
   getContext_2d example_browser \<and> \<not> img_broken example_img \<and>
   getCroppedImg example_browser example_img zero_width_crop ''image/jpeg'' = Inr ''data:,''"
proof -
  note sel = selecting_zero_width_eq
  have a: "admitted selecting_zero_width (ClickCropAndSolve no_context_browser)"
    and c: "completedCrop selecting_zero_width = Some zero_width_crop"
    and i: "imgRef no_context_browser = Some example_img"
    and e: "getCroppedImg no_context_browser example_img zero_width_crop ''image/jpeg'' =
              Inl CanvasContextError"
    by (simp_all add: sel modal_mounted_def no_context_browser_def example_browser_def
        getCroppedImg_def getCroppedImg_canvas_no_context)
  have a': "admitted selecting (ClickCropAndSolve broken_image_browser)"
    and c': "completedCrop selecting = Some example_crop"
    and i': "imgRef broken_image_browser = Some broken_img"
    and e': "getCroppedImg broken_image_browser broken_img example_crop ''image/jpeg'' =
              Inl InvalidStateError"
    and s': "appState selecting = CROPPING" "imageToCrop selecting = Some (example_png, 0)"
    by (simp_all add: selecting_eq modal_mounted_def broken_image_browser_def example_browser_def
        broken_img_def getCroppedImg_def getCroppedImg_canvas_broken)
  have z: "js_times (crop_width zero_width_crop) (scaleX example_img) \<le> 0"
    and g: "getContext_2d example_browser" and n: "\<not> img_broken example_img"
    by (simp_all add: zero_width_crop_def js_times_def example_browser_def example_img_def)
  have d: "getCroppedImg_canvas example_browser example_img zero_width_crop = Inr c \<Longrightarrow>
       toDataURL example_browser c ''image/jpeg'' = ''data:,''" for c
    by (auto simp: crop_defs Let_def example_browser_def example_img_def
        example_toDataURL_def zero_width_crop_def)
  show ?thesis
    using a c i e a' c' i' e' s' z g n d
      failed_extraction_keeps_selection
        [of selecting_zero_width no_context_browser zero_width_crop example_img
          CanvasContextError zero_width_crop example_img example_browser "''image/jpeg''"]
      failed_extraction_keeps_selection
        [of selecting broken_image_browser example_crop broken_img
          InvalidStateError zero_width_crop example_img example_browser "''image/jpeg''"]
    by auto
qed

text \<open>
  C3 as stated fails: a completed selection of width zero maps to a rectangle of width
  zero, its extraction succeeds (the encoding of a canvas without pixels), and the
  session leaves \<^verbatim>\<open>CROPPING\<close> for \<^verbatim>\<open>ANALYZING\<close> and drops the image to crop.
\<close>

theorem zero_width_region_counterexample:
  "js_times (crop_width zero_width_crop) (scaleX example_img) \<le> 0 \<and>
   getCroppedImg example_browser example_img zero_width_crop ''image/jpeg'' = Inr ''data:,'' \<and>
   appState selecting_zero_width = CROPPING \<and>
   appState (dispatch selecting_zero_width (ClickCropAndSolve example_browser)) = ANALYZING \<and>
   imageToCrop (dispatch selecting_zero_width (ClickCropAndSolve example_browser)) = None"
  by (simp add: all_defs Let_def)

section \<open>Object URLs\<close>

lemma handleCropConfirm_revoked: "revoked (handleCropConfirm b w d m) = revoked w"
  by (simp add: handleCropConfirm_def createObjectURL_def Let_def split: option.splits)

text \<open>
  C2. The claim is that every handle is released exactly once and that the scripted
  sequence ends with no live handle. \<^verbatim>\<open>handleCropConfirm\<close> clears \<^verbatim>\<open>imageToCrop\<close>
  without revoking its URL, and \<^verbatim>\<open>handleReset\<close> then finds nothing to revoke for it:
  after two rounds of select, crop, answer and reset, the URLs of the two cropped
  regions were revoked once each and the URLs of the two source images are live; when
  the first selection is cancelled instead, its URL is revoked and the URL of the
  second source image is live.
\<close>

theorem source_image_handles_stay_live:
  "liveURLs (run initial crop_twice) = [(0, OfFile example_png), (2, OfFile example_gif)] \<and>
   revoked (run initial crop_twice) = [1, 3] \<and>
   nextURL (run initial crop_twice) = 4 \<and>
   appState (run initial crop_twice) = IDLE \<and>
   liveURLs (run initial cancel_then_crop) = [(1, OfFile example_gif)] \<and>
   revoked (run initial cancel_then_crop) = [0, 2] \<and>
   nextURL (run initial cancel_then_crop) = 3 \<and>
   appState (run initial cancel_then_crop) = IDLE"
  by (simp add: all_defs Let_def)

end
